theory Spec2Isabelle
  imports Complex_Main "HOL-Library.Word"
begin

section \<open>Machine numbers\<close>

text \<open>
  The C++ type \<^verbatim>\<open>unsigned\<close> is a 32-bit word: subtraction and addition wrap modulo
  \<open>2 ^ 32\<close>.
\<close>

type_synonym unsigned = "32 word"

text \<open>
  The C++ type \<^verbatim>\<open>double\<close> is IEEE 754 binary64: a finite value, one of the two
  infinities, or NaN. A finite value is carried as the real number it denotes
  (\<open>Fin x\<close>); the finite doubles are those with \<open>is_binary64 x\<close>, and every operation
  below returns one of them, an infinity or NaN. The two zeros are one value: the source
  never divides or prints a sign, so they cannot be told apart. Each operation rounds
  its exact result to the nearest double, ties to the even significand, as the default
  rounding mode does.
\<close>

datatype double = Fin real | PInf | NInf | NaN

text \<open>\<open>2\<close> to an integer power.\<close>

definition pow2 :: "int \<Rightarrow> real" where
  "pow2 k = (if 0 \<le> k then 2 ^ nat k else 1 / 2 ^ nat (- k))"

text \<open>A real number is a finite double when it is \<open>m * 2 ^ e\<close> with a significand of at
  most 53 bits and an exponent in the range of the format (subnormal numbers included).\<close>

definition is_binary64 :: "real \<Rightarrow> bool" where
  "is_binary64 x =
     (\<exists>m e. \<bar>m\<bar> < 2 ^ 53 \<and> - 1074 \<le> e \<and> e \<le> 971 \<and> x = of_int m * pow2 e)"

text \<open>Rounding to the nearest integer, a tie going to the even one.\<close>

definition round_ties_even :: "real \<Rightarrow> int" where
  "round_ties_even q =
     (let f = \<lfloor>q\<rfloor>; r = q - of_int f
      in if r < 1 / 2 then f else if 1 / 2 < r then f + 1 else if even f then f else f + 1)"

text \<open>
  The binade of a non-zero real (not below the smallest normal exponent), the distance
  of two neighbouring doubles in that binade, and the rounding of a real to a multiple of
  that distance.
\<close>

definition expo :: "real \<Rightarrow> int" where
  "expo x = max \<lfloor>log 2 \<bar>x\<bar>\<rfloor> (- 1022)"

definition ulp :: "real \<Rightarrow> real" where
  "ulp x = pow2 (expo x - 52)"

definition round_real :: "real \<Rightarrow> real" where
  "round_real x = (if x = 0 then 0 else of_int (round_ties_even (x / ulp x)) * ulp x)"

text \<open>The result of an operation: the rounded value, or an infinity on overflow.\<close>

definition round64 :: "real \<Rightarrow> double" where
  "round64 x =
     (let y = round_real x
      in if pow2 1024 \<le> y then PInf else if y \<le> - pow2 1024 then NInf else Fin y)"

text \<open>
  The operators of the source on doubles: \<^verbatim>\<open>0.0\<close>, \<^verbatim>\<open>+\<close>, \<^verbatim>\<open>-\<close>, \<^verbatim>\<open>*\<close>, and the
  comparisons, which are false as soon as one side is NaN.
\<close>

instantiation double :: "{zero, plus, minus, times, ord}"
begin

definition zero_double :: double where
  "zero_double = Fin 0"

fun plus_double :: "double \<Rightarrow> double \<Rightarrow> double" where
  "plus_double NaN b = NaN"
| "plus_double a NaN = NaN"
| "plus_double PInf NInf = NaN"
| "plus_double NInf PInf = NaN"
| "plus_double PInf b = PInf"
| "plus_double a PInf = PInf"
| "plus_double NInf b = NInf"
| "plus_double a NInf = NInf"
| "plus_double (Fin x) (Fin y) = round64 (x + y)"

fun minus_double :: "double \<Rightarrow> double \<Rightarrow> double" where
  "minus_double NaN b = NaN"
| "minus_double a NaN = NaN"
| "minus_double PInf PInf = NaN"
| "minus_double NInf NInf = NaN"
| "minus_double PInf b = PInf"
| "minus_double NInf b = NInf"
| "minus_double a PInf = NInf"
| "minus_double a NInf = PInf"
| "minus_double (Fin x) (Fin y) = round64 (x - y)"

fun times_double :: "double \<Rightarrow> double \<Rightarrow> double" where
  "times_double NaN b = NaN"
| "times_double a NaN = NaN"
| "times_double PInf PInf = PInf"
| "times_double PInf NInf = NInf"
| "times_double NInf PInf = NInf"
| "times_double NInf NInf = PInf"
| "times_double PInf (Fin y) = (if y = 0 then NaN else if 0 < y then PInf else NInf)"
| "times_double NInf (Fin y) = (if y = 0 then NaN else if 0 < y then NInf else PInf)"
| "times_double (Fin x) PInf = (if x = 0 then NaN else if 0 < x then PInf else NInf)"
| "times_double (Fin x) NInf = (if x = 0 then NaN else if 0 < x then NInf else PInf)"
| "times_double (Fin x) (Fin y) = round64 (x * y)"

fun less_eq_double :: "double \<Rightarrow> double \<Rightarrow> bool" where
  "less_eq_double NaN b = False"
| "less_eq_double a NaN = False"
| "less_eq_double NInf b = True"
| "less_eq_double a PInf = True"
| "less_eq_double PInf b = False"
| "less_eq_double a NInf = False"
| "less_eq_double (Fin x) (Fin y) = (x \<le> y)"

fun less_double :: "double \<Rightarrow> double \<Rightarrow> bool" where
  "less_double NaN b = False"
| "less_double a NaN = False"
| "less_double PInf b = False"
| "less_double a NInf = False"
| "less_double NInf b = True"
| "less_double a PInf = True"
| "less_double (Fin x) (Fin y) = (x < y)"

instance ..

end

section \<open>Data model of include/ispd/workload/workload.hpp\<close>

text \<open>The base class \<^verbatim>\<open>Workload\<close> holds the counter of the tasks still to generate.\<close>

record Workload =
  m_RemainingTasks :: unsigned

text \<open>The derived class \<^verbatim>\<open>ConstantWorkload\<close>: every task gets the same two sizes.\<close>

record ConstantWorkload = Workload +
  m_ConstantProcSize :: double
  m_ConstantCommSize :: double

text \<open>The derived class \<^verbatim>\<open>UniformWorkload\<close>: an interval for each of the two sizes.\<close>

record UniformWorkload = Workload +
  m_MinProcSize :: double
  m_MaxProcSize :: double
  m_MinCommSize :: double
  m_MaxCommSize :: double

text \<open>
  A pointer to the abstract base class is a value of one of the two derived classes; the
  virtual calls dispatch on the constructor.
\<close>

datatype workload = Constant ConstantWorkload | Uniform UniformWorkload

section \<open>Fatal errors\<close>

text \<open>
  Modelled from the spec: \<^verbatim>\<open>ispd_error\<close> is a macro of ispd/log/log.hpp, which is not among
  the sources. The spec (section 7) and the documentation of the constructors say that it
  prints a diagnostic and aborts the process. The abort is the left injection of a sum; it
  carries the format string and the values printed with it.
\<close>

datatype fatal = Fatal string "double list"

definition ispd_error :: "string \<Rightarrow> double list \<Rightarrow> fatal + 'a" where
  "ispd_error fmt args = Inl (Fatal fmt args)"

section \<open>Constructors\<close>

text \<open>
  \<^verbatim>\<open>ConstantWorkload::ConstantWorkload\<close>. The member initialisers run first, then the two
  checks in the order of the source; the first failing check aborts. The debug print at
  the end has no effect on the state.
\<close>

definition ConstantWorkload_new ::
  "unsigned \<Rightarrow> double \<Rightarrow> double \<Rightarrow> fatal + ConstantWorkload" where
  "ConstantWorkload_new remainingTasks constantProcSize constantCommSize =
     (if constantProcSize \<le> 0 then
        ispd_error ''Constant processing size must be positive (Specified constant processing size: %lf).''
          [constantProcSize]
      else if constantCommSize \<le> 0 then
        ispd_error ''Constant communication size must be positive (Specified constant communication size: %lf).''
          [constantCommSize]
      else
        Inr \<lparr>m_RemainingTasks = remainingTasks,
             m_ConstantProcSize = constantProcSize,
             m_ConstantCommSize = constantCommSize\<rparr>)"

text \<open>\<^verbatim>\<open>UniformWorkload::UniformWorkload\<close>: four checks, each of one bound against zero.\<close>

definition UniformWorkload_new ::
  "unsigned \<Rightarrow> double \<Rightarrow> double \<Rightarrow> double \<Rightarrow> double \<Rightarrow> fatal + UniformWorkload" where
  "UniformWorkload_new remainingTasks minProcSize maxProcSize minCommSize maxCommSize =
     (if minProcSize \<le> 0 then
        ispd_error ''Minimum processing size must be positive (Specified minimum processing size: %lf).''
          [minProcSize]
      else if maxProcSize \<le> 0 then
        ispd_error ''Maximum processing size must be positive (Specified maximum processing size: %lf).''
          [maxProcSize]
      else if minCommSize \<le> 0 then
        ispd_error ''Minimum communication size must be positive (Specified minimum communication size: %lf).''
          [minCommSize]
      else if maxCommSize \<le> 0 then
        ispd_error ''Maximum communication size must be positive (Specified maximum communication size: %lf).''
          [maxCommSize]
      else
        Inr \<lparr>m_RemainingTasks = remainingTasks,
             m_MinProcSize = minProcSize, m_MaxProcSize = maxProcSize,
             m_MinCommSize = minCommSize, m_MaxCommSize = maxCommSize\<rparr>)"

text \<open>
  The helper functions \<^verbatim>\<open>constant\<close> and \<^verbatim>\<open>uniform\<close> allocate an object of the class
  (\<open>constant\<close> is a keyword of Isabelle, hence the suffix).
\<close>

definition constant_workload :: "unsigned \<Rightarrow> double \<Rightarrow> double \<Rightarrow> fatal + workload" where
  "constant_workload remainingTasks constantProcSize constantCommSize =
     map_sum id Constant (ConstantWorkload_new remainingTasks constantProcSize constantCommSize)"

definition uniform_workload ::
  "unsigned \<Rightarrow> double \<Rightarrow> double \<Rightarrow> double \<Rightarrow> double \<Rightarrow> fatal + workload" where
  "uniform_workload remainingTasks minProcSize maxProcSize minCommSize maxCommSize =
     map_sum id Uniform
       (UniformWorkload_new remainingTasks minProcSize maxProcSize minCommSize maxCommSize)"

section \<open>The reversible random stream\<close>

text \<open>
  \<^verbatim>\<open>tw_rng_stream\<close>, \<^verbatim>\<open>tw_rand_unif\<close> and \<^verbatim>\<open>tw_rand_reverse_unif\<close> come from the simulation
  kernel (ross.h), which is not part of the repository. They are parameters of the
  embedding: a stream state of any type \<open>'s\<close>, a forward draw that returns a value and
  the advanced stream, and a reverse draw that steps the stream back.
\<close>

record 's tw_rng =
  tw_rand_unif :: "'s \<Rightarrow> double \<times> 's"
  tw_rand_reverse_unif :: "'s \<Rightarrow> 's"

text \<open>
  The contract of the kernel that the spec relies on (section 2, "exact
  reverse-of-last-draw"): a reverse draw right after a forward draw gives the stream
  back.
\<close>

definition reversible :: "'s tw_rng \<Rightarrow> bool" where
  "reversible K = (\<forall>s. tw_rand_reverse_unif K (snd (tw_rand_unif K s)) = s)"

section \<open>Generating and reversing\<close>

text \<open>
  Each member function returns what it writes: the two output references
  \<^verbatim>\<open>procSize\<close> and \<^verbatim>\<open>commSize\<close> (for \<^verbatim>\<open>generateWorkload\<close>), the object and the stream.
\<close>

definition getRemainingTasks :: "'a Workload_scheme \<Rightarrow> unsigned" where
  "getRemainingTasks w = m_RemainingTasks w"

definition ConstantWorkload_generateWorkload ::
  "ConstantWorkload \<Rightarrow> 's \<Rightarrow> double \<times> double \<times> ConstantWorkload \<times> 's" where
  "ConstantWorkload_generateWorkload this rng =
     (let procSize = m_ConstantProcSize this;
          commSize = m_ConstantCommSize this
      in (procSize, commSize, this\<lparr>m_RemainingTasks := m_RemainingTasks this - 1\<rparr>, rng))"

definition ConstantWorkload_reverseGenerateWorkload ::
  "ConstantWorkload \<Rightarrow> 's \<Rightarrow> ConstantWorkload \<times> 's" where
  "ConstantWorkload_reverseGenerateWorkload this rng =
     (this\<lparr>m_RemainingTasks := m_RemainingTasks this + 1\<rparr>, rng)"

definition UniformWorkload_generateWorkload ::
  "'s tw_rng \<Rightarrow> UniformWorkload \<Rightarrow> 's \<Rightarrow> double \<times> double \<times> UniformWorkload \<times> 's" where
  "UniformWorkload_generateWorkload K this rng =
     (let (u1, rng1) = tw_rand_unif K rng;
          procSize = m_MinProcSize this + u1 * (m_MaxProcSize this - m_MinProcSize this);
          (u2, rng2) = tw_rand_unif K rng1;
          commSize = m_MinCommSize this + u2 * (m_MaxCommSize this - m_MinCommSize this)
      in (procSize, commSize, this\<lparr>m_RemainingTasks := m_RemainingTasks this - 1\<rparr>, rng2))"

definition UniformWorkload_reverseGenerateWorkload ::
  "'s tw_rng \<Rightarrow> UniformWorkload \<Rightarrow> 's \<Rightarrow> UniformWorkload \<times> 's" where
  "UniformWorkload_reverseGenerateWorkload K this rng =
     (let rng1 = tw_rand_reverse_unif K rng;
          rng2 = tw_rand_reverse_unif K rng1
      in (this\<lparr>m_RemainingTasks := m_RemainingTasks this + 1\<rparr>, rng2))"

text \<open>The virtual member functions of \<^verbatim>\<open>Workload\<close>, called through a base pointer.\<close>

fun generateWorkload ::
  "'s tw_rng \<Rightarrow> workload \<Rightarrow> 's \<Rightarrow> double \<times> double \<times> workload \<times> 's" where
  "generateWorkload K (Constant this) rng =
     (case ConstantWorkload_generateWorkload this rng of
        (procSize, commSize, this', rng') \<Rightarrow> (procSize, commSize, Constant this', rng'))"
| "generateWorkload K (Uniform this) rng =
     (case UniformWorkload_generateWorkload K this rng of
        (procSize, commSize, this', rng') \<Rightarrow> (procSize, commSize, Uniform this', rng'))"

fun reverseGenerateWorkload :: "'s tw_rng \<Rightarrow> workload \<Rightarrow> 's \<Rightarrow> workload \<times> 's" where
  "reverseGenerateWorkload K (Constant this) rng =
     (case ConstantWorkload_reverseGenerateWorkload this rng of
        (this', rng') \<Rightarrow> (Constant this', rng'))"
| "reverseGenerateWorkload K (Uniform this) rng =
     (case UniformWorkload_reverseGenerateWorkload K this rng of
        (this', rng') \<Rightarrow> (Uniform this', rng'))"

fun remainingTasks :: "workload \<Rightarrow> unsigned" where
  "remainingTasks (Constant this) = getRemainingTasks this"
| "remainingTasks (Uniform this) = getRemainingTasks this"

section \<open>Observing the calls on the stream\<close>

text \<open>
  To count the draws a member function makes, the stream is paired with a log, and each
  primitive appends the call it served: a forward draw with the value it returned, or a
  reverse draw. The workload code is the same; only the kernel it runs on records.
\<close>

datatype rng_call = Draw double | Undo

definition logged :: "'s tw_rng \<Rightarrow> ('s \<times> rng_call list) tw_rng" where
  "logged K =
     \<lparr>tw_rand_unif = (\<lambda>(s, log). case tw_rand_unif K s of (u, s') \<Rightarrow> (u, (s', log @ [Draw u]))),
      tw_rand_reverse_unif = (\<lambda>(s, log). (tw_rand_reverse_unif K s, log @ [Undo]))\<rparr>"

text \<open>
  A sample kernel for concrete evaluations: the stream is a position in the sequence
  \<open>1/2, 1/4, 1/8, \<dots>\<close>; a forward draw steps to the next position, a reverse draw to the
  previous one.
\<close>

definition sample_rng :: "int tw_rng" where
  "sample_rng =
     \<lparr>tw_rand_unif = (\<lambda>i. (Fin (1 / 2 ^ (nat \<bar>i\<bar> + 1)), i + 1)),
      tw_rand_reverse_unif = (\<lambda>i. i - 1)\<rparr>"

text \<open>A second sample kernel: every draw returns the same given value.\<close>

definition fixed_rng :: "double \<Rightarrow> int tw_rng" where
  "fixed_rng u =
     \<lparr>tw_rand_unif = (\<lambda>i. (u, i + 1)),
      tw_rand_reverse_unif = (\<lambda>i. i - 1)\<rparr>"

section \<open>The start of the program (src/main.cpp)\<close>

text \<open>
  The registration functions and \<^verbatim>\<open>this_model::getUsers\<close> are declared in
  ispd/model/builder.hpp, which is not among the sources; \<^verbatim>\<open>main\<close> reads only the size of
  the container of users. The users registered so far are a parameter, a list. The calls
  on the kernel that follow the check are what \<^verbatim>\<open>main\<close> does when it was not aborted:
  the set-up of the logical processes (one step here: it has no abort of its own), then
  the run and the two reports.
\<close>

datatype main_step = lp_setup | tw_run | reportNodeMetrics | tw_end | reportGlobalMetrics

definition main_after_registration :: "'u list \<Rightarrow> fatal + main_step list" where
  "main_after_registration users =
     (if length users = 0 then ispd_error ''At least one user must be registered.'' []
      else Inr [lp_setup, tw_run, reportNodeMetrics, tw_end, reportGlobalMetrics])"

section \<open>Facts about the rounding\<close>

lemma pow2_powr: "pow2 k = 2 powr (of_int k)"
  by (simp add: pow2_def powr_real_of_int inverse_eq_divide)

lemma pow2_pos [simp]: "0 < pow2 k"
  by (simp add: pow2_powr)

lemma pow2_nonzero [simp]: "pow2 k \<noteq> 0"
  by (simp add: pow2_powr)

lemma abs_pow2 [simp]: "\<bar>pow2 k\<bar> = pow2 k"
  using pow2_pos [of k] by (simp only: abs_of_pos)

lemma pow2_add: "pow2 (a + b) = pow2 a * pow2 b"
  by (simp add: pow2_powr powr_add)

lemma pow2_diff: "pow2 (a - b) = pow2 a / pow2 b"
  by (simp add: pow2_powr powr_diff)

lemma pow2_mono: "a \<le> b \<Longrightarrow> pow2 a \<le> pow2 b"
  by (simp add: pow2_powr)

lemma pow2_less_iff: "pow2 a < pow2 b \<longleftrightarrow> a < b"
  by (simp add: pow2_powr)

lemma pow2_nat: "0 \<le> k \<Longrightarrow> pow2 k = of_int (2 ^ nat k)"
  by (simp add: pow2_def)

lemma round_ties_even_of_int [simp]: "round_ties_even (of_int n) = n"
  by (simp add: round_ties_even_def)

lemma expo_binade:
  assumes "pow2 e \<le> \<bar>x\<bar>" "\<bar>x\<bar> < pow2 (e + 1)" "- 1022 \<le> e"
  shows "expo x = e"
proof -
  have pos: "0 < \<bar>x\<bar>" using assms(1) pow2_pos [of e] by linarith
  have "\<lfloor>log 2 \<bar>x\<bar>\<rfloor> = e"
    using assms(1,2) pos by (simp add: floor_log_eq_powr_iff pow2_powr)
  then show ?thesis using assms(3) by (simp add: expo_def)
qed

lemma expo_lower: "x \<noteq> 0 \<Longrightarrow> - 1022 < expo x \<Longrightarrow> pow2 (expo x) \<le> \<bar>x\<bar>"
proof -
  assume "x \<noteq> 0" and big: "- 1022 < expo x"
  then have pos: "0 < \<bar>x\<bar>" by simp
  define k where "k = \<lfloor>log 2 \<bar>x\<bar>\<rfloor>"
  have "2 powr (of_int k) \<le> \<bar>x\<bar> \<and> \<bar>x\<bar> < 2 powr (of_int (k + 1))"
    using floor_log_eq_powr_iff [of "\<bar>x\<bar>" 2 k] pos k_def by simp
  moreover have "expo x = k" using big by (simp add: expo_def k_def max_def split: if_splits)
  ultimately show ?thesis by (simp add: pow2_powr)
qed

text \<open>A finite double is its own rounding: an operation with an exact result is exact.\<close>

lemma round_real_exact:
  assumes "is_binary64 x"
  shows "round_real x = x"
proof (cases "x = 0")
  case True
  then show ?thesis by (simp add: round_real_def)
next
  case False
  from assms obtain m e where m: "\<bar>m\<bar> < 2 ^ 53" and e: "- 1074 \<le> e" "e \<le> 971"
    and x: "x = of_int m * pow2 e"
    unfolding is_binary64_def by blast
  have le: "expo x - 52 \<le> e"
  proof (cases "- 1022 < expo x")
    case True
    have "pow2 (expo x) \<le> \<bar>x\<bar>" using False True by (rule expo_lower)
    also have "\<bar>x\<bar> = of_int \<bar>m\<bar> * pow2 e"
      by (simp add: x abs_mult)
    also have "\<dots> < of_int (2 ^ 53) * pow2 e"
      using m by (intro mult_strict_right_mono) (simp_all del: of_int_power of_int_numeral)
    also have "\<dots> = pow2 (53 + e)" by (simp add: pow2_add pow2_nat)
    finally have "expo x < 53 + e" by (simp add: pow2_less_iff)
    then show ?thesis by simp
  next
    case False
    then have "expo x = - 1022" by (simp add: expo_def max_def split: if_splits)
    then show ?thesis using e by simp
  qed
  define d where "d = e - (expo x - 52)"
  have d0: "0 \<le> d" using le by (simp add: d_def)
  have "x / ulp x = of_int m * (pow2 e / pow2 (expo x - 52))"
    by (simp add: x ulp_def)
  also have "pow2 e / pow2 (expo x - 52) = pow2 d"
    by (simp add: d_def pow2_diff)
  also have "pow2 d = of_int (2 ^ nat d)" using d0 by (rule pow2_nat)
  finally have q: "x / ulp x = of_int (m * 2 ^ nat d)" by simp
  have "round_real x = of_int (m * 2 ^ nat d) * ulp x"
    using False by (simp add: round_real_def q del: of_int_mult of_int_power)
  also have "\<dots> = (x / ulp x) * ulp x" by (simp only: q)
  also have "\<dots> = x" by (simp add: ulp_def)
  finally show ?thesis .
qed

lemma is_binary64_bound:
  assumes "is_binary64 x"
  shows "\<bar>x\<bar> < pow2 1024"
proof -
  from assms obtain m e where m: "\<bar>m\<bar> < 2 ^ 53" and e: "- 1074 \<le> e" "e \<le> 971"
    and x: "x = of_int m * pow2 e"
    unfolding is_binary64_def by blast
  have "\<bar>x\<bar> = of_int \<bar>m\<bar> * pow2 e" by (simp add: x abs_mult)
  also have "\<dots> < of_int (2 ^ 53) * pow2 e"
    using m by (intro mult_strict_right_mono) (simp_all del: of_int_power of_int_numeral)
  also have "\<dots> = pow2 (53 + e)" by (simp add: pow2_add pow2_nat)
  also have "\<dots> \<le> pow2 1024" using e by (intro pow2_mono) simp
  finally show ?thesis .
qed

lemma round64_exact: "is_binary64 x \<Longrightarrow> round64 x = Fin x"
proof -
  assume b: "is_binary64 x"
  then have "\<bar>x\<bar> < pow2 1024" by (rule is_binary64_bound)
  then have "\<not> pow2 1024 \<le> x \<and> \<not> x \<le> - pow2 1024" by linarith
  then show ?thesis using b by (simp add: round64_def round_real_exact)
qed

lemma is_binary64_of_int: "\<bar>m\<bar> < 2 ^ 53 \<Longrightarrow> is_binary64 (of_int m)"
  unfolding is_binary64_def
  by (rule exI [of _ m], rule exI [of _ 0]) (simp add: pow2_def)

lemma round64_of_int: "\<bar>m\<bar> < 2 ^ 53 \<Longrightarrow> round64 (of_int m) = Fin (of_int m)"
  by (rule round64_exact) (rule is_binary64_of_int)

text \<open>In the binade from \<open>2 ^ 52\<close> to \<open>2 ^ 53\<close> the doubles are the integers.\<close>

lemma round64_binade_52:
  assumes "2 ^ 52 \<le> x" "x < 2 ^ 53"
  shows "round64 x = Fin (of_int (round_ties_even x))"
proof -
  have "expo x = 52"
    using assms by (intro expo_binade) (simp_all add: pow2_def)
  then have u: "ulp x = 1" by (simp add: ulp_def pow2_def)
  have nz: "x \<noteq> 0" using assms by auto
  have rr: "round_real x = of_int (round_ties_even x)"
    using nz by (simp add: round_real_def u)
  have "\<lfloor>x\<rfloor> < 2 ^ 53" using assms(2) by (simp add: floor_less_iff)
  moreover have "0 \<le> \<lfloor>x\<rfloor>" using assms(1) by simp
  ultimately have "0 \<le> round_ties_even x \<and> round_ties_even x \<le> 2 ^ 53"
    by (auto simp: round_ties_even_def Let_def)
  then have "0 \<le> (of_int (round_ties_even x) :: real) \<and>
             (of_int (round_ties_even x) :: real) \<le> of_int (2 ^ 53)"
    by (simp del: of_int_power of_int_numeral)
  moreover have "(of_int (2 ^ 53) :: real) = pow2 53" by (simp add: pow2_def)
  moreover have "pow2 53 < pow2 1024" by (simp add: pow2_less_iff)
  ultimately have "\<not> pow2 1024 \<le> of_int (round_ties_even x) \<and>
      \<not> of_int (round_ties_even x) \<le> - pow2 1024"
    using pow2_pos [of 1024] by linarith
  then show ?thesis
    by (simp add: round64_def rr)
qed

section \<open>Facts about the comparisons\<close>

lemma double_le_zero_simps [simp]:
  "(Fin x \<le> 0) = (x \<le> 0)" "(PInf \<le> (0::double)) = False" "(NInf \<le> (0::double)) = True"
  "(NaN \<le> (0::double)) = False"
  by (simp_all add: zero_double_def)

lemma double_zero_less_simps [simp]:
  "(0 < Fin x) = (0 < x)" "((0::double) < PInf) = True" "((0::double) < NInf) = False"
  "((0::double) < NaN) = False"
  by (simp_all add: zero_double_def)


section \<open>Sample evaluations\<close>

lemma round64_small [simp]:
  "round64 1 = Fin 1" "round64 2 = Fin 2" "round64 3 = Fin 3" "round64 4 = Fin 4"
  using round64_of_int [of 1] round64_of_int [of 2] round64_of_int [of 3]
    round64_of_int [of 4]
  by simp_all

lemma sample_draws:
  "tw_rand_unif sample_rng 0 = (Fin (1 / 2), 1)"
  "tw_rand_unif sample_rng 1 = (Fin (1 / 4), 2)"
  "tw_rand_reverse_unif sample_rng i = i - 1"
  by (simp_all add: sample_rng_def)

lemma sample_generate:
  "UniformWorkload_generateWorkload sample_rng
     \<lparr>m_RemainingTasks = n, m_MinProcSize = Fin 1, m_MaxProcSize = Fin 3,
      m_MinCommSize = Fin 2, m_MaxCommSize = Fin 6\<rparr> 0 =
   (Fin 2, Fin 3,
    \<lparr>m_RemainingTasks = n - 1, m_MinProcSize = Fin 1, m_MaxProcSize = Fin 3,
      m_MinCommSize = Fin 2, m_MaxCommSize = Fin 6\<rparr>, 2)"
  by (simp add: UniformWorkload_generateWorkload_def sample_draws)

section \<open>Construction\<close>

text \<open>
  As long as no argument is NaN, a ConstantWorkload is constructed exactly when both
  constant sizes are strictly positive.
\<close>

lemma ConstantWorkload_new_without_NaN:
  "p \<noteq> NaN \<Longrightarrow> c \<noteq> NaN \<Longrightarrow>
   (\<exists>w. ConstantWorkload_new n p c = Inr w) = (0 < p \<and> 0 < c)"
  by (cases p; cases c) (auto simp: ConstantWorkload_new_def ispd_error_def)

text \<open>
  C5. The constructor of ConstantWorkload is documented to abort when a constant size is
  not positive, and the claim is that construction succeeds exactly when both sizes are
  strictly positive. The two checks are \<^verbatim>\<open>size <= 0.0\<close>, and a comparison with NaN is
  false: with a NaN processing size neither check fires and the object is constructed,
  although NaN is not strictly positive.
\<close>

theorem ConstantWorkload_new_accepts_NaN:
  "ConstantWorkload_new 1 NaN (Fin 1) =
     Inr \<lparr>m_RemainingTasks = 1, m_ConstantProcSize = NaN, m_ConstantCommSize = Fin 1\<rparr> \<and>
   \<not> 0 < NaN \<and> \<not> NaN \<le> (0::double)"
  by (simp add: ConstantWorkload_new_def)

text \<open>
  C6. Constructing a UniformWorkload with one of the four bounds less than or equal to
  zero aborts with a diagnostic, and no object is made; in particular a minimum processing
  size of 0.0 aborts, with the message of the first check.
\<close>

theorem UniformWorkload_new_nonpositive_aborts:
  "(minProcSize \<le> 0 \<or> maxProcSize \<le> 0 \<or> minCommSize \<le> 0 \<or> maxCommSize \<le> 0 \<longrightarrow>
      (\<exists>fmt args. UniformWorkload_new n minProcSize maxProcSize minCommSize maxCommSize =
         Inl (Fatal fmt args))) \<and>
   UniformWorkload_new n 0 maxProcSize minCommSize maxCommSize =
     Inl (Fatal ''Minimum processing size must be positive (Specified minimum processing size: %lf).'' [0])"
  by (auto simp: UniformWorkload_new_def ispd_error_def zero_double_def)

theorem UniformWorkload_new_nonpositive_aborts_witness:
  "((0::double) \<le> 0 \<or> Fin 5 \<le> 0 \<or> Fin 1 \<le> 0 \<or> Fin 2 \<le> 0) \<and>
   (\<exists>fmt args. UniformWorkload_new 10 0 (Fin 5) (Fin 1) (Fin 2) = Inl (Fatal fmt args))"
  using UniformWorkload_new_nonpositive_aborts [of 0 "Fin 5" "Fin 1" "Fin 2" 10]
  by (simp add: zero_double_def)




section \<open>The check of the registered users\<close>

text \<open>
  C8. After the registration of the model, \<^verbatim>\<open>main\<close> aborts with a fatal error when no
  user is registered, and the simulation is not run; with at least one registered user the
  check passes and the run takes place.
\<close>

theorem main_user_check:
  "(users = [] \<longrightarrow>
      main_after_registration users =
        Inl (Fatal ''At least one user must be registered.'' [])) \<and>
   (users \<noteq> [] \<longrightarrow>
      (\<exists>steps. main_after_registration users = Inr steps \<and> tw_run \<in> set steps))"
  by (simp add: main_after_registration_def ispd_error_def)

theorem main_user_check_witness:
  "main_after_registration ([] :: (string \<times> real) list) =
     Inl (Fatal ''At least one user must be registered.'' []) \<and>
   (\<exists>steps. main_after_registration [(''User1'', 100 :: real)] = Inr steps \<and>
      tw_run \<in> set steps)"
  using main_user_check [of "[] :: (string \<times> real) list"]
    main_user_check [of "[(''User1'', 100 :: real)]"]
  by simp

section \<open>Generating a constant workload\<close>

text \<open>
  C3. For a ConstantWorkload with constant sizes p and c and a remaining-task counter
  n > 0, generateWorkload writes exactly p to the processing size and exactly c to the
  communication size, takes the counter from n to n - 1 (no wrap-around), and draws
  nothing: the stream is returned as it was, and on a logging kernel the log stays empty.
\<close>

theorem ConstantWorkload_generateWorkload_constant:
  "0 < m_RemainingTasks w \<Longrightarrow>
   ConstantWorkload_generateWorkload w rng =
     (m_ConstantProcSize w, m_ConstantCommSize w,
      w\<lparr>m_RemainingTasks := m_RemainingTasks w - 1\<rparr>, rng) \<and>
   unat (m_RemainingTasks w - 1) + 1 = unat (m_RemainingTasks w) \<and>
   generateWorkload (logged K) (Constant w) (s, []) =
     (m_ConstantProcSize w, m_ConstantCommSize w,
      Constant (w\<lparr>m_RemainingTasks := m_RemainingTasks w - 1\<rparr>), (s, []))"
proof -
  assume pos: "0 < m_RemainingTasks w"
  then have nz: "m_RemainingTasks w \<noteq> 0" by auto
  then have "unat (m_RemainingTasks w - 1) = unat (m_RemainingTasks w) - 1"
    by (rule unat_minus_one)
  moreover from nz have "0 < unat (m_RemainingTasks w)" by (simp add: unat_gt_0)
  ultimately have "unat (m_RemainingTasks w - 1) + 1 = unat (m_RemainingTasks w)"
    by simp
  then show ?thesis
    by (simp add: ConstantWorkload_generateWorkload_def)
qed

theorem ConstantWorkload_generateWorkload_constant_witness:
  "(0::unsigned) < 3 \<and>
   ConstantWorkload_generateWorkload
     \<lparr>m_RemainingTasks = 3, m_ConstantProcSize = Fin 1000, m_ConstantCommSize = Fin 80\<rparr>
     (7::int) =
     (Fin 1000, Fin 80,
      \<lparr>m_RemainingTasks = 2, m_ConstantProcSize = Fin 1000, m_ConstantCommSize = Fin 80\<rparr>,
      7) \<and>
   generateWorkload (logged sample_rng)
     (Constant \<lparr>m_RemainingTasks = 3, m_ConstantProcSize = Fin 1000,
                m_ConstantCommSize = Fin 80\<rparr>)
     (7, []) =
     (Fin 1000, Fin 80,
      Constant \<lparr>m_RemainingTasks = 2, m_ConstantProcSize = Fin 1000,
                m_ConstantCommSize = Fin 80\<rparr>,
      (7, []))"
  using ConstantWorkload_generateWorkload_constant [of
      "\<lparr>m_RemainingTasks = 3, m_ConstantProcSize = Fin 1000, m_ConstantCommSize = Fin 80\<rparr>"
      "7::int" sample_rng 7]
  by simp

section \<open>The draws of a uniform workload\<close>

text \<open>
  C2. On a kernel that logs its calls, UniformWorkload::generateWorkload makes exactly
  two forward draws: the first value gives the processing size, the second the
  communication size. UniformWorkload::reverseGenerateWorkload makes exactly two reverse
  draws on the same stream and adds one to the remaining-task counter. When the kernel's
  reverse draw undoes the last forward draw, the first reverse draw takes the stream back
  to where it was between the two draws (it undoes the communication draw), and the second
  takes it back to where it was before the processing draw.
\<close>

theorem UniformWorkload_two_draws_two_reverse_draws:
  "(case tw_rand_unif K s of (u1, s1) \<Rightarrow>
      (case tw_rand_unif K s1 of (u2, s2) \<Rightarrow>
         UniformWorkload_generateWorkload (logged K) w (s, []) =
           (m_MinProcSize w + u1 * (m_MaxProcSize w - m_MinProcSize w),
            m_MinCommSize w + u2 * (m_MaxCommSize w - m_MinCommSize w),
            w\<lparr>m_RemainingTasks := m_RemainingTasks w - 1\<rparr>,
            (s2, [Draw u1, Draw u2])) \<and>
         UniformWorkload_reverseGenerateWorkload (logged K) w' (s2, []) =
           (w'\<lparr>m_RemainingTasks := m_RemainingTasks w' + 1\<rparr>,
            (tw_rand_reverse_unif K (tw_rand_reverse_unif K s2), [Undo, Undo])) \<and>
         (reversible K \<longrightarrow>
            tw_rand_reverse_unif K s2 = s1 \<and> tw_rand_reverse_unif K s1 = s)))"
proof -
  obtain u1 s1 where d1: "tw_rand_unif K s = (u1, s1)"
    by (cases "tw_rand_unif K s")
  obtain u2 s2 where d2: "tw_rand_unif K s1 = (u2, s2)"
    by (cases "tw_rand_unif K s1")
  have gen: "UniformWorkload_generateWorkload (logged K) w (s, []) =
           (m_MinProcSize w + u1 * (m_MaxProcSize w - m_MinProcSize w),
            m_MinCommSize w + u2 * (m_MaxCommSize w - m_MinCommSize w),
            w\<lparr>m_RemainingTasks := m_RemainingTasks w - 1\<rparr>,
            (s2, [Draw u1, Draw u2]))"
    using d1 d2 by (simp add: UniformWorkload_generateWorkload_def logged_def)
  have rev: "UniformWorkload_reverseGenerateWorkload (logged K) w' (s2, []) =
           (w'\<lparr>m_RemainingTasks := m_RemainingTasks w' + 1\<rparr>,
            (tw_rand_reverse_unif K (tw_rand_reverse_unif K s2), [Undo, Undo]))"
    by (simp add: UniformWorkload_reverseGenerateWorkload_def logged_def)
  have undo: "tw_rand_reverse_unif K s2 = s1 \<and> tw_rand_reverse_unif K s1 = s"
    if "reversible K"
    using that d1 d2 unfolding reversible_def by (metis snd_conv)
  show ?thesis
    using gen rev undo by (simp add: d1 d2)
qed

theorem UniformWorkload_two_draws_two_reverse_draws_witness:
  "reversible sample_rng \<and>
   UniformWorkload_generateWorkload (logged sample_rng)
     \<lparr>m_RemainingTasks = 5, m_MinProcSize = Fin 1, m_MaxProcSize = Fin 3,
      m_MinCommSize = Fin 2, m_MaxCommSize = Fin 6\<rparr> (0, []) =
     (Fin 2, Fin 3,
      \<lparr>m_RemainingTasks = 4, m_MinProcSize = Fin 1, m_MaxProcSize = Fin 3,
       m_MinCommSize = Fin 2, m_MaxCommSize = Fin 6\<rparr>,
      (2, [Draw (Fin (1 / 2)), Draw (Fin (1 / 4))])) \<and>
   UniformWorkload_reverseGenerateWorkload (logged sample_rng)
     \<lparr>m_RemainingTasks = 4, m_MinProcSize = Fin 1, m_MaxProcSize = Fin 3,
      m_MinCommSize = Fin 2, m_MaxCommSize = Fin 6\<rparr> (2, []) =
     (\<lparr>m_RemainingTasks = 5, m_MinProcSize = Fin 1, m_MaxProcSize = Fin 3,
       m_MinCommSize = Fin 2, m_MaxCommSize = Fin 6\<rparr>,
      (0, [Undo, Undo])) \<and>
   tw_rand_reverse_unif sample_rng 2 = 1 \<and> tw_rand_reverse_unif sample_rng 1 = 0"
proof -
  have r: "reversible sample_rng"
    by (simp add: reversible_def sample_rng_def)
  show ?thesis
    using r UniformWorkload_two_draws_two_reverse_draws [where K = sample_rng and s = 0
        and w = "\<lparr>m_RemainingTasks = 5, m_MinProcSize = Fin 1, m_MaxProcSize = Fin 3,
          m_MinCommSize = Fin 2, m_MaxCommSize = Fin 6\<rparr>"
        and w' = "\<lparr>m_RemainingTasks = 4, m_MinProcSize = Fin 1, m_MaxProcSize = Fin 3,
          m_MinCommSize = Fin 2, m_MaxCommSize = Fin 6\<rparr>"]
    by (simp add: sample_draws)
qed

section \<open>The sizes of a uniform workload and their bounds\<close>

text \<open>
  C4. The member function is documented to produce sizes within the range of the minimum
  and the maximum, and the claim is that it does so when the minimum is not above the
  maximum and the draw lies in [0, 1]. In double arithmetic the sum can be rounded
  past the maximum: with the bounds 1.5 and \<open>2 ^ 52 + 3\<close> (both doubles, accepted by the
  constructor) and a draw of 1, the difference \<open>2 ^ 52 + 1.5\<close> is a tie and rounds to
  \<open>2 ^ 52 + 2\<close>, and \<open>1.5 + (2 ^ 52 + 2)\<close> is a tie again and rounds to \<open>2 ^ 52 + 4\<close>,
  which is above the maximum, for both sizes.
\<close>

theorem UniformWorkload_generateWorkload_leaves_bounds:
  "is_binary64 (3 / 2) \<and> is_binary64 (2 ^ 52 + 3) \<and> is_binary64 1 \<and>
   UniformWorkload_new 1 (Fin (3 / 2)) (Fin (2 ^ 52 + 3)) (Fin (3 / 2)) (Fin (2 ^ 52 + 3)) =
     Inr \<lparr>m_RemainingTasks = 1, m_MinProcSize = Fin (3 / 2), m_MaxProcSize = Fin (2 ^ 52 + 3),
          m_MinCommSize = Fin (3 / 2), m_MaxCommSize = Fin (2 ^ 52 + 3)\<rparr> \<and>
   Fin (3 / 2) \<le> Fin (2 ^ 52 + 3) \<and> 0 \<le> Fin 1 \<and> Fin 1 \<le> Fin 1 \<and>
   UniformWorkload_generateWorkload (fixed_rng (Fin 1))
     \<lparr>m_RemainingTasks = 1, m_MinProcSize = Fin (3 / 2), m_MaxProcSize = Fin (2 ^ 52 + 3),
      m_MinCommSize = Fin (3 / 2), m_MaxCommSize = Fin (2 ^ 52 + 3)\<rparr> 0 =
     (Fin (2 ^ 52 + 4), Fin (2 ^ 52 + 4),
      \<lparr>m_RemainingTasks = 0, m_MinProcSize = Fin (3 / 2), m_MaxProcSize = Fin (2 ^ 52 + 3),
       m_MinCommSize = Fin (3 / 2), m_MaxCommSize = Fin (2 ^ 52 + 3)\<rparr>, 2) \<and>
   \<not> Fin (2 ^ 52 + 4) \<le> Fin (2 ^ 52 + 3)"
proof -
  have b1: "is_binary64 (3 / 2)"
    unfolding is_binary64_def
    by (rule exI [of _ 3], rule exI [of _ "- 1"]) (simp add: pow2_def)
  have b2: "is_binary64 (2 ^ 52 + 3)"
    using is_binary64_of_int [of "2 ^ 52 + 3"] by simp
  have b3: "is_binary64 1"
    using is_binary64_of_int [of 1] by simp
  have t1: "round_ties_even (9007199254740995 / 2) = 4503599627370498"
    by (simp add: round_ties_even_def Let_def)
  have t2: "round_ties_even (9007199254740999 / 2) = 4503599627370500"
    by (simp add: round_ties_even_def Let_def)
  have r1: "round64 (9007199254740995 / 2) = Fin 4503599627370498"
    using round64_binade_52 [of "9007199254740995 / 2"] by (simp add: t1)
  have r2: "round64 4503599627370498 = Fin 4503599627370498"
    using round64_of_int [of 4503599627370498] by simp
  have r3: "round64 (9007199254740999 / 2) = Fin 4503599627370500"
    using round64_binade_52 [of "9007199254740999 / 2"] by (simp add: t2)
  have gen: "UniformWorkload_generateWorkload (fixed_rng (Fin 1))
     \<lparr>m_RemainingTasks = 1, m_MinProcSize = Fin (3 / 2), m_MaxProcSize = Fin (2 ^ 52 + 3),
      m_MinCommSize = Fin (3 / 2), m_MaxCommSize = Fin (2 ^ 52 + 3)\<rparr> 0 =
     (Fin (2 ^ 52 + 4), Fin (2 ^ 52 + 4),
      \<lparr>m_RemainingTasks = 0, m_MinProcSize = Fin (3 / 2), m_MaxProcSize = Fin (2 ^ 52 + 3),
       m_MinCommSize = Fin (3 / 2), m_MaxCommSize = Fin (2 ^ 52 + 3)\<rparr>, 2)"
    by (simp add: UniformWorkload_generateWorkload_def fixed_rng_def r1 r2 r3)
  have new: "UniformWorkload_new 1 (Fin (3 / 2)) (Fin (2 ^ 52 + 3)) (Fin (3 / 2)) (Fin (2 ^ 52 + 3)) =
     Inr \<lparr>m_RemainingTasks = 1, m_MinProcSize = Fin (3 / 2), m_MaxProcSize = Fin (2 ^ 52 + 3),
          m_MinCommSize = Fin (3 / 2), m_MaxCommSize = Fin (2 ^ 52 + 3)\<rparr>"
    by (simp add: UniformWorkload_new_def)
  show ?thesis
    using b1 b2 b3 gen new by (simp add: zero_double_def)
qed

text \<open>
  The draw need not be 1 for a size to leave the bounds: infinite bounds pass the
  constructor as well, and then the difference of the bounds is NaN and so are both
  sizes, whatever the draw.
\<close>

lemma infinite_bounds_give_NaN:
  "UniformWorkload_new 1 PInf PInf PInf PInf =
     Inr \<lparr>m_RemainingTasks = 1, m_MinProcSize = PInf, m_MaxProcSize = PInf,
          m_MinCommSize = PInf, m_MaxCommSize = PInf\<rparr> \<and>
   PInf \<le> PInf \<and>
   UniformWorkload_generateWorkload sample_rng
     \<lparr>m_RemainingTasks = 1, m_MinProcSize = PInf, m_MaxProcSize = PInf,
      m_MinCommSize = PInf, m_MaxCommSize = PInf\<rparr> 0 =
     (NaN, NaN,
      \<lparr>m_RemainingTasks = 0, m_MinProcSize = PInf, m_MaxProcSize = PInf,
       m_MinCommSize = PInf, m_MaxCommSize = PInf\<rparr>, 2) \<and>
   \<not> PInf \<le> NaN \<and> \<not> NaN \<le> PInf"
  by (simp add: UniformWorkload_new_def UniformWorkload_generateWorkload_def sample_draws)

section \<open>Generating and reversing\<close>

text \<open>
  C1. On a kernel whose reverse draw undoes the last forward draw, and for either
  workload variant, any stream state and any value of the remaining-task counter (zero
  included), reverseGenerateWorkload right after generateWorkload restores the counter and
  the stream (the whole object, in fact), and a generateWorkload after that produces the
  same processing and communication sizes as the first one.
\<close>

theorem generate_then_reverse_restores:
  assumes "reversible K"
  shows "case generateWorkload K w rng of (procSize, commSize, w1, rng1) \<Rightarrow>
           (case reverseGenerateWorkload K w1 rng1 of (w2, rng2) \<Rightarrow>
              remainingTasks w2 = remainingTasks w \<and> rng2 = rng \<and> w2 = w \<and>
              (case generateWorkload K w2 rng2 of (procSize', commSize', w3, rng3) \<Rightarrow>
                 procSize' = procSize \<and> commSize' = commSize))"
proof (cases w)
  case (Constant c)
  then show ?thesis
    by (simp add: ConstantWorkload_generateWorkload_def
        ConstantWorkload_reverseGenerateWorkload_def)
next
  case (Uniform u)
  obtain u1 s1 where d1: "tw_rand_unif K rng = (u1, s1)"
    by (cases "tw_rand_unif K rng")
  obtain u2 s2 where d2: "tw_rand_unif K s1 = (u2, s2)"
    by (cases "tw_rand_unif K s1")
  from assms d2 have r2: "tw_rand_reverse_unif K s2 = s1"
    unfolding reversible_def by (metis snd_conv)
  from assms d1 have r1: "tw_rand_reverse_unif K s1 = rng"
    unfolding reversible_def by (metis snd_conv)
  show ?thesis
    using Uniform d1 d2 r1 r2
    by (simp add: UniformWorkload_generateWorkload_def
        UniformWorkload_reverseGenerateWorkload_def)
qed

theorem generate_then_reverse_restores_witness:
  "reversible sample_rng \<and>
   generateWorkload sample_rng
     (Uniform \<lparr>m_RemainingTasks = 0, m_MinProcSize = Fin 1, m_MaxProcSize = Fin 3,
               m_MinCommSize = Fin 2, m_MaxCommSize = Fin 6\<rparr>) 0 =
     (Fin 2, Fin 3,
      Uniform \<lparr>m_RemainingTasks = 4294967295, m_MinProcSize = Fin 1, m_MaxProcSize = Fin 3,
               m_MinCommSize = Fin 2, m_MaxCommSize = Fin 6\<rparr>, 2) \<and>
   reverseGenerateWorkload sample_rng
     (Uniform \<lparr>m_RemainingTasks = 4294967295, m_MinProcSize = Fin 1, m_MaxProcSize = Fin 3,
               m_MinCommSize = Fin 2, m_MaxCommSize = Fin 6\<rparr>) 2 =
     (Uniform \<lparr>m_RemainingTasks = 0, m_MinProcSize = Fin 1, m_MaxProcSize = Fin 3,
               m_MinCommSize = Fin 2, m_MaxCommSize = Fin 6\<rparr>, 0) \<and>
   reverseGenerateWorkload sample_rng
     (Constant \<lparr>m_RemainingTasks = 2, m_ConstantProcSize = Fin 1000,
                m_ConstantCommSize = Fin 80\<rparr>) 4 =
     (Constant \<lparr>m_RemainingTasks = 3, m_ConstantProcSize = Fin 1000,
                m_ConstantCommSize = Fin 80\<rparr>, 4)"
proof -
  have r: "reversible sample_rng"
    by (simp add: reversible_def sample_rng_def)
  show ?thesis
    using r
      generate_then_reverse_restores [OF r,
        of "Uniform \<lparr>m_RemainingTasks = 0, m_MinProcSize = Fin 1, m_MaxProcSize = Fin 3,
               m_MinCommSize = Fin 2, m_MaxCommSize = Fin 6\<rparr>" 0]
      generate_then_reverse_restores [OF r,
        of "Constant \<lparr>m_RemainingTasks = 3, m_ConstantProcSize = Fin 1000,
               m_ConstantCommSize = Fin 80\<rparr>" 4]
    by (simp add: sample_generate sample_draws
        UniformWorkload_reverseGenerateWorkload_def
        ConstantWorkload_generateWorkload_def
        ConstantWorkload_reverseGenerateWorkload_def)
qed

section \<open>The counter at zero\<close>

lemma unsigned_minus_one: "(- 1 :: unsigned) = 4294967295"
  by simp

text \<open>
  C9. generateWorkload of either variant, called with the remaining-task counter at 0,
  has no error case: it returns, and the unsigned counter has wrapped modulo \<open>2 ^ 32\<close>
  to 4294967295, so that a test for remaining tasks still succeeds.
\<close>

theorem generateWorkload_at_zero_wraps:
  "remainingTasks w = 0 \<Longrightarrow>
   (case generateWorkload K w rng of (procSize, commSize, w1, rng1) \<Rightarrow>
      remainingTasks w1 = 4294967295 \<and> unat (remainingTasks w1) = 2 ^ 32 - 1 \<and>
      0 < remainingTasks w1)"
  by (cases w)
    (simp_all add: ConstantWorkload_generateWorkload_def UniformWorkload_generateWorkload_def
      getRemainingTasks_def unsigned_minus_one split: prod.splits)

theorem generateWorkload_at_zero_wraps_witness:
  "remainingTasks (Constant \<lparr>m_RemainingTasks = 0, m_ConstantProcSize = Fin 1000,
      m_ConstantCommSize = Fin 80\<rparr>) = 0 \<and>
   generateWorkload sample_rng (Constant \<lparr>m_RemainingTasks = 0, m_ConstantProcSize = Fin 1000,
      m_ConstantCommSize = Fin 80\<rparr>) 0 =
     (Fin 1000, Fin 80, Constant \<lparr>m_RemainingTasks = 4294967295,
      m_ConstantProcSize = Fin 1000, m_ConstantCommSize = Fin 80\<rparr>, 0) \<and>
   remainingTasks (Uniform \<lparr>m_RemainingTasks = 0, m_MinProcSize = Fin 1,
      m_MaxProcSize = Fin 3, m_MinCommSize = Fin 2, m_MaxCommSize = Fin 6\<rparr>) = 0 \<and>
   generateWorkload sample_rng (Uniform \<lparr>m_RemainingTasks = 0, m_MinProcSize = Fin 1,
      m_MaxProcSize = Fin 3, m_MinCommSize = Fin 2, m_MaxCommSize = Fin 6\<rparr>) 0 =
     (Fin 2, Fin 3, Uniform \<lparr>m_RemainingTasks = 4294967295, m_MinProcSize = Fin 1,
      m_MaxProcSize = Fin 3, m_MinCommSize = Fin 2, m_MaxCommSize = Fin 6\<rparr>, 2)"
  using generateWorkload_at_zero_wraps [of "Constant \<lparr>m_RemainingTasks = 0,
      m_ConstantProcSize = Fin 1000, m_ConstantCommSize = Fin 80\<rparr>" sample_rng 0]
    generateWorkload_at_zero_wraps [of "Uniform \<lparr>m_RemainingTasks = 0, m_MinProcSize = Fin 1,
      m_MaxProcSize = Fin 3, m_MinCommSize = Fin 2, m_MaxCommSize = Fin 6\<rparr>" sample_rng 0]
  by (simp add: ConstantWorkload_generateWorkload_def sample_generate
      getRemainingTasks_def)

section \<open>The policy parameters are never written\<close>

text \<open>
  C10. generateWorkload and reverseGenerateWorkload of both variants leave the policy
  parameters as they were: the two constant sizes of a ConstantWorkload and the four
  bounds of a UniformWorkload are the same after a call as before it; of the object only
  the remaining-task counter is written.
\<close>

theorem policy_parameters_unchanged:
  "(case ConstantWorkload_generateWorkload c rng of (procSize, commSize, c1, rng1) \<Rightarrow>
      m_ConstantProcSize c1 = m_ConstantProcSize c \<and>
      m_ConstantCommSize c1 = m_ConstantCommSize c \<and>
      c1 = c\<lparr>m_RemainingTasks := m_RemainingTasks c1\<rparr>) \<and>
   (case ConstantWorkload_reverseGenerateWorkload c rng of (c1, rng1) \<Rightarrow>
      m_ConstantProcSize c1 = m_ConstantProcSize c \<and>
      m_ConstantCommSize c1 = m_ConstantCommSize c \<and>
      c1 = c\<lparr>m_RemainingTasks := m_RemainingTasks c1\<rparr>) \<and>
   (case UniformWorkload_generateWorkload K u rng of (procSize, commSize, u1, rng1) \<Rightarrow>
      m_MinProcSize u1 = m_MinProcSize u \<and> m_MaxProcSize u1 = m_MaxProcSize u \<and>
      m_MinCommSize u1 = m_MinCommSize u \<and> m_MaxCommSize u1 = m_MaxCommSize u \<and>
      u1 = u\<lparr>m_RemainingTasks := m_RemainingTasks u1\<rparr>) \<and>
   (case UniformWorkload_reverseGenerateWorkload K u rng of (u1, rng1) \<Rightarrow>
      m_MinProcSize u1 = m_MinProcSize u \<and> m_MaxProcSize u1 = m_MaxProcSize u \<and>
      m_MinCommSize u1 = m_MinCommSize u \<and> m_MaxCommSize u1 = m_MaxCommSize u \<and>
      u1 = u\<lparr>m_RemainingTasks := m_RemainingTasks u1\<rparr>)"
  by (simp add: ConstantWorkload_generateWorkload_def
      ConstantWorkload_reverseGenerateWorkload_def UniformWorkload_generateWorkload_def
      UniformWorkload_reverseGenerateWorkload_def Let_def split: prod.splits)

end
